theory Spec2Isabelle
  imports Main "HOL-Library.Word" "HOL-Library.Sublist"
begin

section \<open>Integers and rectangles\<close>

text \<open>
  Go's \<open>int\<close> is a 64-bit two's complement integer on the platforms the engine targets:
  \<open>-\<close> wraps around and the comparisons are signed.
\<close>

type_synonym go_int = "64 word"

text \<open>
  \<open>image.Point\<close> and \<open>image.Rectangle\<close> of Go's standard library, which
  \<open>internal/restorable/image.go\<close> uses for every region. A rectangle holds the points
  with \<open>Min.X \<le> x < Max.X\<close> and \<open>Min.Y \<le> y < Max.Y\<close>.
\<close>

record Point =
  X :: go_int
  Y :: go_int

record Rectangle =
  MinP :: Point
  MaxP :: Point

definition Pt :: "go_int \<Rightarrow> go_int \<Rightarrow> Point" where
  "Pt x y = \<lparr>X = x, Y = y\<rparr>"

text \<open>\<open>image.Rect(x0, y0, x1, y1)\<close> swaps the coordinates of an axis given in the wrong order.\<close>

definition Rect :: "go_int \<Rightarrow> go_int \<Rightarrow> go_int \<Rightarrow> go_int \<Rightarrow> Rectangle" where
  "Rect x0 y0 x1 y1 =
     (let (xa, xb) = (if x1 <s x0 then (x1, x0) else (x0, x1));
          (ya, yb) = (if y1 <s y0 then (y1, y0) else (y0, y1))
      in \<lparr>MinP = Pt xa ya, MaxP = Pt xb yb\<rparr>)"

text \<open>\<open>r.Dx()\<close> and \<open>r.Dy()\<close>: width and height, by a subtraction that wraps.\<close>

definition Dx :: "Rectangle \<Rightarrow> go_int" where
  "Dx r = X (MaxP r) - X (MinP r)"

definition Dy :: "Rectangle \<Rightarrow> go_int" where
  "Dy r = Y (MaxP r) - Y (MinP r)"

text \<open>\<open>r.Empty()\<close>: \<open>r.Min.X >= r.Max.X || r.Min.Y >= r.Max.Y\<close>.\<close>

definition Empty :: "Rectangle \<Rightarrow> bool" where
  "Empty r = (if X (MaxP r) \<le>s X (MinP r) then True else Y (MaxP r) \<le>s Y (MinP r))"

text \<open>\<open>r.In(s)\<close>: every point of \<open>r\<close> is in \<open>s\<close>; an empty \<open>r\<close> is in every \<open>s\<close>.\<close>

definition In :: "Rectangle \<Rightarrow> Rectangle \<Rightarrow> bool" where
  "In r s =
     (if Empty r then True
      else X (MinP s) \<le>s X (MinP r) \<and> X (MaxP r) \<le>s X (MaxP s) \<and>
           Y (MinP s) \<le>s Y (MinP r) \<and> Y (MaxP r) \<le>s Y (MaxP s))"

section \<open>Duplicate elimination on regions\<close>

text \<open>
  The first loop of \<open>appendRegionRemovingDuplicates\<close>: is the new region fully contained
  in one of the regions of the list?
\<close>

fun containedInAny :: "Rectangle list \<Rightarrow> Rectangle \<Rightarrow> bool" where
  "containedInAny [] region = False"
| "containedInAny (r # rs) region = (if In region r then True else containedInAny rs region)"

text \<open>
  The second loop compacts the slice in place: \<open>i\<close> is the index the \<open>range\<close> loop reads,
  \<open>n\<close> the index it writes. The loop reads each element from the array it has already
  written to, as Go's \<open>range\<close> over a slice does.
\<close>

function compact :: "Rectangle list \<Rightarrow> Rectangle \<Rightarrow> nat \<Rightarrow> nat \<Rightarrow> Rectangle list \<times> nat" where
  "compact arr region i n =
     (if i < length arr then
        (let r = arr ! i in
         if In r region then compact arr region (Suc i) n
         else compact (arr[n := r]) region (Suc i) (Suc n))
      else (arr, n))"
  by pat_completeness auto
termination
  by (relation "measure (\<lambda>(arr, region, i, n). length arr - i)") auto

declare compact.simps [simp del]

text \<open>\<open>*regions = append(( *regions)[:n], region)\<close> ends the function.\<close>

definition appendRegionRemovingDuplicates :: "Rectangle list \<Rightarrow> Rectangle \<Rightarrow> Rectangle list" where
  "appendRegionRemovingDuplicates regions region =
     (if containedInAny regions region then regions
      else (case compact regions region 0 0 of (arr, n) \<Rightarrow> take n arr @ [region]))"

section \<open>The packages the restorable layer calls\<close>

text \<open>
  \<open>internal/restorable/image.go\<close> calls into \<open>graphics\<close>, \<open>graphicscommand\<close> and
  \<open>graphicsdriver\<close>. What it needs of them is modelled here: the command layer as the
  ordered list of the calls it has received, the constants and vertex helpers as the
  fields of a parameter record.
\<close>

type_synonym byte = "8 word"
type_synonym uint32 = "32 word"

text \<open>A \<open>float32\<close> is its 32-bit pattern; the code here only stores and passes floats.\<close>

type_synonym float32 = "32 word"

text \<open>\<open>*graphics.ManagedBytes\<close>: a pixel buffer, or nil.\<close>

type_synonym ManagedBytes = "byte list"

datatype Blend = BlendCopy | BlendClear | BlendOther nat

datatype FillRule = FillRuleFillAll | FillRuleOther nat

text \<open>
  Modelled from the spec: \<open>graphicscommand.Image\<close>, the native image handle
  (\<open>CreateImage(width, height, isScreen) \<rightarrow> handle\<close>). Each handle is created once and
  never shared.
\<close>

record gc_Image =
  gc_id :: nat
  gc_width :: go_int
  gc_height :: go_int
  gc_screen :: bool

text \<open>\<open>*restorable.Shader\<close> wraps a \<open>*graphicscommand.Shader\<close> in its field \<open>shader\<close>.\<close>

record Shader =
  shader :: nat

text \<open>The calls the command layer receives, in the order they are made.\<close>

datatype gc_call =
    GcNewImage gc_Image
  | GcWritePixels gc_Image ManagedBytes Rectangle
  | GcDrawTriangles gc_Image "gc_Image option list" "float32 list" "uint32 list" Blend
      Rectangle "Rectangle list" nat "uint32 list" FillRule
  | GcDispose gc_Image

text \<open>
  The constants and helpers of package \<open>graphics\<close> and the package-level shaders of
  \<open>restorable\<close>, taken as parameters. \<open>QuadVertexAt args k\<close> is the float that
  \<open>QuadVerticesFromDstAndSrc\<close> stores at index \<open>k\<close> of the vertex buffer for the twelve
  arguments \<open>args\<close>; \<open>InternalImageSize\<close> is the padded size \<open>InternalSize()\<close> reports.
\<close>

record graphics_pkg =
  ShaderSrcImageCount :: nat
  VertexFloatCount :: nat
  QuadVertexAt :: "float32 list \<Rightarrow> nat \<Rightarrow> float32"
  QuadIndices :: "uint32 list"
  InternalImageSize :: "go_int \<Rightarrow> go_int"
  float32_of_int :: "go_int \<Rightarrow> float32"
  NearestFilterShader :: Shader
  clearShader :: Shader

definition float32_0 :: float32 where
  "float32_0 = 0"

definition float32_1 :: float32 where
  "float32_1 = 0x3F800000"

section \<open>Pixels\<close>

text \<open>
  Modelled from the spec: \<open>pixelsRecords\<close>, the (region, buffer) pairs recorded for one
  image, in insertion order. Its file is not among the sources; \<open>addOrReplace\<close>,
  \<open>apply\<close>, \<open>appendRegions\<close> and \<open>dispose\<close> follow the spec's section 4.1.
\<close>

type_synonym pixelsRecords = "(Rectangle \<times> ManagedBytes) list"

record Pixels =
  pixelsRecords :: "pixelsRecords option"

text \<open>
  Modelled from the spec: adding a region removes every recorded region fully contained
  in it, and does nothing when the new region is fully contained in a recorded one.
\<close>

definition pixelsRecords_addOrReplace :: "pixelsRecords \<Rightarrow> ManagedBytes \<Rightarrow> Rectangle \<Rightarrow> pixelsRecords" where
  "pixelsRecords_addOrReplace pr pix region =
     (if containedInAny (map fst pr) region then pr
      else filter (\<lambda>rec. \<not> In (fst rec) region) pr @ [(region, pix)])"

text \<open>Modelled from the spec: one pixel upload per record, in insertion order.\<close>

definition pixelsRecords_apply :: "pixelsRecords \<Rightarrow> gc_Image \<Rightarrow> gc_call list" where
  "pixelsRecords_apply pr img = map (\<lambda>rec. GcWritePixels img (snd rec) (fst rec)) pr"

text \<open>Modelled from the spec: all tracked regions are appended to the list.\<close>

definition pixelsRecords_appendRegions :: "pixelsRecords \<Rightarrow> Rectangle list \<Rightarrow> Rectangle list" where
  "pixelsRecords_appendRegions pr regions = regions @ map fst pr"

definition Pixels_AddOrReplace :: "Pixels \<Rightarrow> ManagedBytes \<Rightarrow> Rectangle \<Rightarrow> Pixels" where
  "Pixels_AddOrReplace p pix region =
     (let pr = (case pixelsRecords p of None \<Rightarrow> [] | Some pr \<Rightarrow> pr)
      in p\<lparr>pixelsRecords := Some (pixelsRecords_addOrReplace pr pix region)\<rparr>)"

definition Pixels_AppendRegion :: "Pixels \<Rightarrow> Rectangle list \<Rightarrow> Rectangle list" where
  "Pixels_AppendRegion p regions =
     (case pixelsRecords p of None \<Rightarrow> regions | Some pr \<Rightarrow> pixelsRecords_appendRegions pr regions)"

text \<open>\<open>Pixels.Apply\<close>: the uploads that restoring onto \<open>img\<close> issues.\<close>

definition Pixels_Apply :: "Pixels \<Rightarrow> gc_Image \<Rightarrow> gc_call list" where
  "Pixels_Apply p img =
     (case pixelsRecords p of None \<Rightarrow> [] | Some pr \<Rightarrow> pixelsRecords_apply pr img)"

section \<open>Images and the registry\<close>

datatype ImageType = ImageTypeRegular | ImageTypeScreen | ImageTypeVolatile

text \<open>
  \<open>restorable.Image\<close>. The field \<open>image\<close> is called \<open>gimage\<close> here; it is nil after
  \<open>Dispose\<close>.
\<close>

record Image =
  gimage :: "gc_Image option"
  width :: go_int
  height :: go_int
  basePixels :: Pixels
  stale :: bool
  staleRegions :: "Rectangle list"
  pixelsCache :: "(Rectangle \<rightharpoonup> byte list) option"
  regionsCache :: "Rectangle list"
  imageType :: ImageType

text \<open>A \<open>*Image\<close> is an address: an index into the store of all images ever allocated.\<close>

type_synonym addr = nat

text \<open>
  \<open>images\<close>, the registry. The Go maps are sets of pointers; they are lists without
  repetition here, and the loops over them run in list order.
\<close>

record images =
  images :: "addr list"
  shaders :: "nat list"
  lastTarget :: "addr option"

text \<open>
  The state of the process: the store of images, the registry \<open>theImages\<close>, the flag
  \<open>graphicsDriverInitialized\<close>, and the calls made to the command layer so far.
\<close>

record world =
  heap :: "Image list"
  theImages :: images
  graphicsDriverInitialized :: bool
  commands :: "gc_call list"

text \<open>
  The panics of the package, one constructor per message, and the two run-time panics of
  Go that the modelled code can raise.
\<close>

datatype panic =
    WidthHeightMustBePositive
  | OutOfRange Rectangle
  | TargetMustNotBeNil
  | GraphicsDriverNotReady
  | PixelsMustNotBeStale
  | NilDereference
  | IndexOutOfRange

definition deref :: "world \<Rightarrow> addr \<Rightarrow> panic + Image" where
  "deref w a = (if a < length (heap w) then Inr (heap w ! a) else Inl NilDereference)"

definition store :: "world \<Rightarrow> addr \<Rightarrow> Image \<Rightarrow> world" where
  "store w a img = w\<lparr>heap := (heap w)[a := img]\<rparr>"

subsection \<open>The command layer\<close>

text \<open>
  \<open>graphicscommand.NewImage\<close> returns a handle that no earlier call has returned: its
  identifier is the number of calls recorded so far.
\<close>

definition gc_NewImage :: "world \<Rightarrow> go_int \<Rightarrow> go_int \<Rightarrow> bool \<Rightarrow> gc_Image \<times> world" where
  "gc_NewImage w wd ht screen =
     (let gi = \<lparr>gc_id = length (commands w), gc_width = wd, gc_height = ht, gc_screen = screen\<rparr>
      in (gi, w\<lparr>commands := commands w @ [GcNewImage gi]\<rparr>))"

definition gc_InternalSize :: "graphics_pkg \<Rightarrow> gc_Image \<Rightarrow> go_int \<times> go_int" where
  "gc_InternalSize g gi = (InternalImageSize g (gc_width gi), InternalImageSize g (gc_height gi))"

definition gc_call :: "world \<Rightarrow> gc_Image option \<Rightarrow> (gc_Image \<Rightarrow> gc_call) \<Rightarrow> panic + world" where
  "gc_call w target c =
     (case target of
        None \<Rightarrow> Inl NilDereference
      | Some gi \<Rightarrow> Inr (w\<lparr>commands := commands w @ [c gi]\<rparr>))"

text \<open>The vertex buffer of \<open>4 * VertexFloatCount\<close> floats that the quad helper fills.\<close>

definition quadVertices :: "graphics_pkg \<Rightarrow> float32 list \<Rightarrow> float32 list" where
  "quadVertices g args = map (QuadVertexAt g args) [0 ..< 4 * VertexFloatCount g]"

definition noRegions :: "graphics_pkg \<Rightarrow> Rectangle list" where
  "noRegions g = replicate (ShaderSrcImageCount g) \<lparr>MinP = Pt 0 0, MaxP = Pt 0 0\<rparr>"

definition clearImage :: "graphics_pkg \<Rightarrow> world \<Rightarrow> gc_Image option \<Rightarrow> Rectangle \<Rightarrow> panic + world" where
  "clearImage g w i region =
     (let f = float32_of_int g;
          vs = quadVertices g
                 [f (X (MinP region)), f (Y (MinP region)), f (X (MaxP region)), f (Y (MaxP region)),
                  float32_0, float32_0, float32_0, float32_0,
                  float32_0, float32_0, float32_0, float32_0];
          is = QuadIndices g
      in gc_call w i
           (\<lambda>gi. GcDrawTriangles gi (replicate (ShaderSrcImageCount g) None) vs is BlendClear region
                   (noRegions g) (shader (clearShader g)) [] FillRuleFillAll))"

subsection \<open>Staleness\<close>

text \<open>\<open>makeStale\<close> sets the flag; the rectangle it is given is not used.\<close>

definition makeStale :: "Image \<Rightarrow> Rectangle \<Rightarrow> Image" where
  "makeStale i rect = i\<lparr>stale := True\<rparr>"

definition needsRestoring :: "Image \<Rightarrow> bool" where
  "needsRestoring i = (imageType i = ImageTypeRegular)"

definition dependsOn :: "Image \<Rightarrow> addr \<Rightarrow> bool" where
  "dependsOn i target = False"

definition Image_makeStaleIfDependingOn :: "Image \<Rightarrow> addr \<Rightarrow> Image" where
  "Image_makeStaleIfDependingOn i target =
     (if stale i then i
      else if dependsOn i target then makeStale i \<lparr>MinP = Pt 0 0, MaxP = Pt 0 0\<rparr>
      else i)"

text \<open>The loop of \<open>images.makeStaleIfDependingOn\<close> over the registered images.\<close>

fun makeStaleLoop :: "addr list \<Rightarrow> addr \<Rightarrow> world \<Rightarrow> panic + world" where
  "makeStaleLoop [] target w = Inr w"
| "makeStaleLoop (a # as) target w =
     (case deref w a of
        Inl e \<Rightarrow> Inl e
      | Inr img \<Rightarrow> makeStaleLoop as target (store w a (Image_makeStaleIfDependingOn img target)))"

text \<open>The assignment \<open>i.lastTarget = target\<close>.\<close>

definition setLastTarget :: "world \<Rightarrow> addr \<Rightarrow> world" where
  "setLastTarget w t = w\<lparr>theImages := (theImages w)\<lparr>lastTarget := Some t\<rparr>\<rparr>"

definition images_makeStaleIfDependingOn :: "world \<Rightarrow> addr option \<Rightarrow> panic + world" where
  "images_makeStaleIfDependingOn w target =
     (case target of
        None \<Rightarrow> Inl TargetMustNotBeNil
      | Some t \<Rightarrow>
          if lastTarget (theImages w) = Some t then Inr w
          else makeStaleLoop (images (theImages w)) t (setLastTarget w t))"

definition images_add :: "world \<Rightarrow> addr \<Rightarrow> world" where
  "images_add w img =
     w\<lparr>theImages := (theImages w)\<lparr>images := List.insert img (images (theImages w))\<rparr>\<rparr>"

definition images_remove :: "world \<Rightarrow> addr \<Rightarrow> panic + world" where
  "images_remove w img =
     (case images_makeStaleIfDependingOn w (Some img) of
        Inl e \<Rightarrow> Inl e
      | Inr w1 \<Rightarrow> Inr (w1\<lparr>theImages := (theImages w1)\<lparr>images := removeAll img (images (theImages w1))\<rparr>\<rparr>))"

subsection \<open>Operations on an image\<close>

text \<open>
  Every operation takes the world and the receiver's address and returns the new world, or
  the panic that ended the call.
\<close>

definition NewImage :: "graphics_pkg \<Rightarrow> world \<Rightarrow> go_int \<Rightarrow> go_int \<Rightarrow> ImageType \<Rightarrow> panic + addr \<times> world" where
  "NewImage g w wd ht ty =
     (if \<not> graphicsDriverInitialized w then Inl GraphicsDriverNotReady
      else
        (case gc_NewImage w wd ht (ty = ImageTypeScreen) of (gi, w1) \<Rightarrow>
           (let i = \<lparr>gimage = Some gi, width = wd, height = ht,
                     basePixels = \<lparr>pixelsRecords = None\<rparr>, stale = False, staleRegions = [],
                     pixelsCache = None, regionsCache = [], imageType = ty\<rparr>
            in case gc_InternalSize g gi of (iw, ih) \<Rightarrow>
                 (case clearImage g w1 (gimage i) (Rect 0 0 iw ih) of
                    Inl e \<Rightarrow> Inl e
                  | Inr w2 \<Rightarrow>
                      (let a = length (heap w2)
                       in Inr (a, images_add (w2\<lparr>heap := heap w2 @ [i]\<rparr>) a))))))"

text \<open>The loop of \<open>DrawTriangles\<close> that reads the command image of every non-nil source.\<close>

fun sourceImages :: "world \<Rightarrow> addr option list \<Rightarrow> panic + gc_Image option list" where
  "sourceImages w [] = Inr []"
| "sourceImages w (None # srcs) =
     (case sourceImages w srcs of Inl e \<Rightarrow> Inl e | Inr imgs \<Rightarrow> Inr (None # imgs))"
| "sourceImages w (Some src # srcs) =
     (case deref w src of
        Inl e \<Rightarrow> Inl e
      | Inr img \<Rightarrow>
          (case sourceImages w srcs of Inl e \<Rightarrow> Inl e | Inr imgs \<Rightarrow> Inr (gimage img # imgs)))"

definition DrawTriangles ::
  "world \<Rightarrow> addr \<Rightarrow> addr option list \<Rightarrow> float32 list \<Rightarrow> uint32 list \<Rightarrow> Blend \<Rightarrow> Rectangle \<Rightarrow>
   Rectangle list \<Rightarrow> Shader option \<Rightarrow> uint32 list \<Rightarrow> FillRule \<Rightarrow> panic + world" where
  "DrawTriangles w i srcs vertices indices blend dstRegion srcRegions shdr uniforms fillRule =
     (if length vertices = 0 then Inr w
      else
        (case images_makeStaleIfDependingOn w (Some i) of
           Inl e \<Rightarrow> Inl e
         | Inr w1 \<Rightarrow>
             (case deref w1 i of
                Inl e \<Rightarrow> Inl e
              | Inr img \<Rightarrow>
                  (let w2 = store w1 i (makeStale img dstRegion)
                   in case sourceImages w2 srcs of
                        Inl e \<Rightarrow> Inl e
                      | Inr imgs \<Rightarrow>
                          (case shdr of
                             None \<Rightarrow> Inl NilDereference
                           | Some sh \<Rightarrow>
                               gc_call w2 (gimage img)
                                 (\<lambda>gi. GcDrawTriangles gi imgs vertices indices blend dstRegion
                                         srcRegions (shader sh) uniforms fillRule))))))"

definition WritePixels :: "graphics_pkg \<Rightarrow> world \<Rightarrow> addr \<Rightarrow> ManagedBytes option \<Rightarrow> Rectangle \<Rightarrow> panic + world" where
  "WritePixels g w i pixels region =
     (if Dx region \<le>s 0 then Inl WidthHeightMustBePositive
      else if Dy region \<le>s 0 then Inl WidthHeightMustBePositive
      else
        (case deref w i of
           Inl e \<Rightarrow> Inl e
         | Inr img0 \<Rightarrow>
             if \<not> In region (Rect 0 0 (width img0) (height img0)) then Inl (OutOfRange region)
             else
               (case images_makeStaleIfDependingOn w (Some i) of
                  Inl e \<Rightarrow> Inl e
                | Inr w1 \<Rightarrow>
                    (case deref w1 i of
                       Inl e \<Rightarrow> Inl e
                     | Inr img \<Rightarrow>
                         (case (case pixels of
                                  Some pix \<Rightarrow> gc_call w1 (gimage img) (\<lambda>gi. GcWritePixels gi pix region)
                                | None \<Rightarrow> clearImage g w1 (gimage img) region) of
                            Inl e \<Rightarrow> Inl e
                          | Inr w2 \<Rightarrow> Inr (store w2 i (makeStale img region)))))))"

definition ClearPixels :: "graphics_pkg \<Rightarrow> world \<Rightarrow> addr \<Rightarrow> Rectangle \<Rightarrow> panic + world" where
  "ClearPixels g w i region = WritePixels g w i None region"

text \<open>\<open>Pixels.Dispose\<close> releases the buffers; the caller then stores an empty \<open>Pixels\<close>.\<close>

definition Dispose :: "world \<Rightarrow> addr \<Rightarrow> panic + world" where
  "Dispose w i =
     (case images_remove w i of
        Inl e \<Rightarrow> Inl e
      | Inr w1 \<Rightarrow>
          (case deref w1 i of
             Inl e \<Rightarrow> Inl e
           | Inr img \<Rightarrow>
               (case gc_call w1 (gimage img) GcDispose of
                  Inl e \<Rightarrow> Inl e
                | Inr w2 \<Rightarrow>
                    Inr (store w2 i
                          (img\<lparr>gimage := None, basePixels := \<lparr>pixelsRecords = None\<rparr>,
                               pixelsCache := None, stale := False,
                               staleRegions := take 0 (staleRegions img)\<rparr>)))))"

definition Extend :: "graphics_pkg \<Rightarrow> world \<Rightarrow> addr \<Rightarrow> go_int \<Rightarrow> go_int \<Rightarrow> panic + addr \<times> world" where
  "Extend g w i wd ht =
     (case deref w i of
        Inl e \<Rightarrow> Inl e
      | Inr img \<Rightarrow>
          if wd \<le>s width img \<and> ht \<le>s height img then Inr (i, w)
          else
            (case NewImage g w wd ht (imageType img) of
               Inl e \<Rightarrow> Inl e
             | Inr (newImg, w1) \<Rightarrow>
                 (let srcs = Some i # replicate (ShaderSrcImageCount g - 1) None
                  in case gimage img of
                       None \<Rightarrow> Inl NilDereference
                     | Some gi \<Rightarrow>
                         (case gc_InternalSize g gi of (sw, sh) \<Rightarrow>
                            (let f = float32_of_int g;
                                 vs = quadVertices g
                                        [float32_0, float32_0, f sw, f sh,
                                         float32_0, float32_0, f sw, f sh,
                                         float32_1, float32_1, float32_1, float32_1];
                                 is = QuadIndices g;
                                 dr = Rect 0 0 sw sh
                             in case DrawTriangles w1 newImg srcs vs is BlendCopy dr (noRegions g)
                                       (Some (NearestFilterShader g)) [] FillRuleFillAll of
                                  Inl e \<Rightarrow> Inl e
                                | Inr w2 \<Rightarrow>
                                    (case Dispose w2 i of
                                       Inl e \<Rightarrow> Inl e
                                     | Inr w3 \<Rightarrow> Inr (newImg, w3)))))))"

text \<open>
  \<open>restore\<close> returns a Go \<open>error\<close>, which is nil on every path: the result is that error
  (\<open>None\<close> for nil) with the new world, or the panic.
\<close>

definition restore :: "graphics_pkg \<Rightarrow> world \<Rightarrow> addr \<Rightarrow> panic + string option \<times> world" where
  "restore g w i =
     (case deref w i of
        Inl e \<Rightarrow> Inl e
      | Inr img \<Rightarrow>
          (case imageType img of
             ImageTypeScreen \<Rightarrow>
               (case gc_NewImage w (width img) (height img) True of (gi, w1) \<Rightarrow>
                  Inr (None, store w1 i
                         (img\<lparr>gimage := Some gi, basePixels := \<lparr>pixelsRecords = None\<rparr>,
                              stale := False, staleRegions := take 0 (staleRegions img)\<rparr>)))
           | ImageTypeVolatile \<Rightarrow>
               (case gc_NewImage w (width img) (height img) False of (gi, w1) \<Rightarrow>
                  (case gc_InternalSize g gi of (iw, ih) \<Rightarrow>
                     (case clearImage g w1 (Some gi) (Rect 0 0 iw ih) of
                        Inl e \<Rightarrow> Inl e
                      | Inr w2 \<Rightarrow> Inr (None, store w2 i (img\<lparr>gimage := Some gi\<rparr>)))))
           | ImageTypeRegular \<Rightarrow>
               if stale img then Inl PixelsMustNotBeStale
               else
                 (case gc_NewImage w (width img) (height img) False of (gimg, w1) \<Rightarrow>
                    (case gc_InternalSize g gimg of (iw, ih) \<Rightarrow>
                       (case clearImage g w1 (Some gimg) (Rect 0 0 iw ih) of
                          Inl e \<Rightarrow> Inl e
                        | Inr w2 \<Rightarrow>
                            (let w3 = w2\<lparr>commands := commands w2 @ Pixels_Apply (basePixels img) gimg\<rparr>
                             in Inr (None, store w3 i
                                      (img\<lparr>gimage := Some gimg, stale := False,
                                           staleRegions := take 0 (staleRegions img)\<rparr>))))))))"

section \<open>A world for the worked examples\<close>

text \<open>
  An instance of the parameters (four source images and eight floats per vertex, as the
  comment on \<open>DrawTriangles\<close> lists them, no padding of the internal size), and the world
  of a process whose graphics driver is initialized and that holds no image yet.
\<close>

definition example_graphics :: graphics_pkg where
  "example_graphics =
     \<lparr>ShaderSrcImageCount = 4, VertexFloatCount = 8,
      QuadVertexAt = (\<lambda>args k. float32_0), QuadIndices = [0, 1, 2, 1, 2, 3],
      InternalImageSize = (\<lambda>n. n), float32_of_int = (\<lambda>n. float32_0),
      NearestFilterShader = \<lparr>shader = 0\<rparr>, clearShader = \<lparr>shader = 1\<rparr>\<rparr>"

definition example_world :: world where
  "example_world =
     \<lparr>heap = [], theImages = \<lparr>images = [], shaders = [], lastTarget = None\<rparr>,
      graphicsDriverInitialized = True, commands = []\<rparr>"

text \<open>
  The world after \<open>NewImage(4, 4, ImageTypeRegular)\<close> in the example world, its image at
  address 0, and the world after a following \<open>ClearPixels\<close> of the region \<open>(0,0)-(2,2)\<close>.
\<close>

definition example_regular :: Image where
  "example_regular =
     \<lparr>gimage = Some \<lparr>gc_id = 0, gc_width = 4, gc_height = 4, gc_screen = False\<rparr>,
      width = 4, height = 4, basePixels = \<lparr>pixelsRecords = None\<rparr>, stale = False,
      staleRegions = [], pixelsCache = None, regionsCache = [], imageType = ImageTypeRegular\<rparr>"

definition example_world1 :: world where
  "example_world1 =
     (case NewImage example_graphics example_world 4 4 ImageTypeRegular of
        Inr (a, w) \<Rightarrow> w
      | Inl e \<Rightarrow> example_world)"

definition example_world2 :: world where
  "example_world2 =
     (case ClearPixels example_graphics example_world1 0 (Rect 0 0 2 2) of
        Inr w \<Rightarrow> w
      | Inl e \<Rightarrow> example_world1)"

text \<open>The registry holds addresses of allocated images only.\<close>

definition registered_valid :: "world \<Rightarrow> bool" where
  "registered_valid w = list_all (\<lambda>a. a < length (heap w)) (images (theImages w))"

section \<open>Paths and the flattening of curves\<close>

text \<open>
  \<open>vector/path.go\<close>. The arithmetic and the comparisons of \<open>float32\<close> are parameters:
  the recursion of \<open>quadTo\<close> and \<open>cubicTo\<close> is modelled for whatever they compute.
\<close>

record float_ops =
  fadd :: "float32 \<Rightarrow> float32 \<Rightarrow> float32"
  fsub :: "float32 \<Rightarrow> float32 \<Rightarrow> float32"
  fmul :: "float32 \<Rightarrow> float32 \<Rightarrow> float32"
  fdiv :: "float32 \<Rightarrow> float32 \<Rightarrow> float32"
  fneg :: "float32 \<Rightarrow> float32"
  fgt :: "float32 \<Rightarrow> float32 \<Rightarrow> bool"
  fne :: "float32 \<Rightarrow> float32 \<Rightarrow> bool"

text \<open>The literals \<open>2\<close> and \<open>0.5\<close> as \<open>float32\<close>.\<close>

definition float32_2 :: float32 where
  "float32_2 = 0x40000000"

definition float32_half :: float32 where
  "float32_half = 0x3F000000"

text \<open>\<open>point\<close>; its fields \<open>x\<close> and \<open>y\<close> are \<open>px\<close> and \<open>py\<close> here.\<close>

record point =
  px :: float32
  py :: float32

record Path =
  segs :: "point list list"
  cur :: point

definition MoveTo :: "Path \<Rightarrow> float32 \<Rightarrow> float32 \<Rightarrow> Path" where
  "MoveTo p x y =
     (let c = \<lparr>px = x, py = y\<rparr> in \<lparr>segs = segs p @ [[c]], cur = c\<rparr>)"

text \<open>
  \<open>LineTo\<close>. Indexing the last point of an empty segment is Go's index-out-of-range
  panic.
\<close>

definition LineTo :: "float_ops \<Rightarrow> Path \<Rightarrow> float32 \<Rightarrow> float32 \<Rightarrow> panic + Path" where
  "LineTo fo p x y =
     (let ss = (if length (segs p) = 0 then segs p @ [[cur p]] else segs p);
          seg = last ss
      in if seg = [] then Inl IndexOutOfRange
         else
           (let ss' = (if fne fo (px (last seg)) x \<or> fne fo (py (last seg)) y
                       then butlast ss @ [seg @ [\<lparr>px = x, py = y\<rparr>]]
                       else ss)
            in Inr \<lparr>segs = ss', cur = \<lparr>px = x, py = y\<rparr>\<rparr>))"

definition isPointCloseToSegment ::
  "float_ops \<Rightarrow> float32 \<Rightarrow> float32 \<Rightarrow> float32 \<Rightarrow> float32 \<Rightarrow> float32 \<Rightarrow> float32 \<Rightarrow> float32 \<Rightarrow> bool" where
  "isPointCloseToSegment fo x y x0 y0 x1 y1 allow =
     (let a = fsub fo y1 y0;
          b = fneg fo (fsub fo x1 x0);
          c = fsub fo (fmul fo (fsub fo x1 x0) y0) (fmul fo (fsub fo y1 y0) x0);
          d = fadd fo (fadd fo (fmul fo a x) (fmul fo b y)) c
      in fgt fo (fmul fo (fmul fo allow allow) (fadd fo (fmul fo a a) (fmul fo b b)))
                (fmul fo d d))"

definition mid :: "float_ops \<Rightarrow> float32 \<Rightarrow> float32 \<Rightarrow> float32" where
  "mid fo a b = fdiv fo (fadd fo a b) float32_2"

text \<open>
  \<open>quadTo\<close> and \<open>cubicTo\<close>. The first argument bounds the depth of the recursion: a call
  may nest that many calls, itself included, and \<open>None\<close> says the bound was reached
  before the call returned. A result \<open>Some\<close> is the call's return (a path) or its panic.
\<close>

fun quadTo ::
  "nat \<Rightarrow> float_ops \<Rightarrow> Path \<Rightarrow> float32 \<Rightarrow> float32 \<Rightarrow> float32 \<Rightarrow> float32 \<Rightarrow> go_int \<Rightarrow> (panic + Path) option" where
  "quadTo 0 fo p x1 y1 x2 y2 level = None"
| "quadTo (Suc depth) fo p x1 y1 x2 y2 level =
     (if 10 <s level then Some (Inr p)
      else
        (let x0 = px (cur p); y0 = py (cur p)
         in if isPointCloseToSegment fo x1 y1 x0 y0 x2 y2 float32_half then Some (LineTo fo p x2 y2)
            else
              (let x01 = mid fo x0 x1; y01 = mid fo y0 y1;
                   x12 = mid fo x1 x2; y12 = mid fo y1 y2;
                   x012 = mid fo x01 x12; y012 = mid fo y01 y12
               in case quadTo depth fo p x01 y01 x012 y012 (level + 1) of
                    None \<Rightarrow> None
                  | Some (Inl e) \<Rightarrow> Some (Inl e)
                  | Some (Inr p1) \<Rightarrow> quadTo depth fo p1 x12 y12 x2 y2 (level + 1))))"

fun cubicTo ::
  "nat \<Rightarrow> float_ops \<Rightarrow> Path \<Rightarrow> float32 \<Rightarrow> float32 \<Rightarrow> float32 \<Rightarrow> float32 \<Rightarrow> float32 \<Rightarrow> float32 \<Rightarrow>
   go_int \<Rightarrow> (panic + Path) option" where
  "cubicTo 0 fo p x1 y1 x2 y2 x3 y3 level = None"
| "cubicTo (Suc depth) fo p x1 y1 x2 y2 x3 y3 level =
     (if 10 <s level then Some (Inr p)
      else
        (let x0 = px (cur p); y0 = py (cur p)
         in if isPointCloseToSegment fo x1 y1 x0 y0 x3 y3 float32_half \<and>
               isPointCloseToSegment fo x2 y2 x0 y0 x3 y3 float32_half
            then Some (LineTo fo p x3 y3)
            else
              (let x01 = mid fo x0 x1; y01 = mid fo y0 y1;
                   x12 = mid fo x1 x2; y12 = mid fo y1 y2;
                   x23 = mid fo x2 x3; y23 = mid fo y2 y3;
                   x012 = mid fo x01 x12; y012 = mid fo y01 y12;
                   x123 = mid fo x12 x23; y123 = mid fo y12 y23;
                   x0123 = mid fo x012 x123; y0123 = mid fo y012 y123
               in case cubicTo depth fo p x01 y01 x012 y012 x0123 y0123 (level + 1) of
                    None \<Rightarrow> None
                  | Some (Inl e) \<Rightarrow> Some (Inl e)
                  | Some (Inr p1) \<Rightarrow> cubicTo depth fo p1 x123 y123 x23 y23 x3 y3 (level + 1))))"

text \<open>\<open>QuadTo\<close> and \<open>CubicTo\<close> start the recursion at level 0.\<close>

definition QuadTo ::
  "nat \<Rightarrow> float_ops \<Rightarrow> Path \<Rightarrow> float32 \<Rightarrow> float32 \<Rightarrow> float32 \<Rightarrow> float32 \<Rightarrow> (panic + Path) option" where
  "QuadTo depth fo p x1 y1 x2 y2 = quadTo depth fo p x1 y1 x2 y2 0"

definition CubicTo ::
  "nat \<Rightarrow> float_ops \<Rightarrow> Path \<Rightarrow> float32 \<Rightarrow> float32 \<Rightarrow> float32 \<Rightarrow> float32 \<Rightarrow> float32 \<Rightarrow> float32 \<Rightarrow>
   (panic + Path) option" where
  "CubicTo depth fo p x1 y1 x2 y2 x3 y3 = cubicTo depth fo p x1 y1 x2 y2 x3 y3 0"

text \<open>
  Float operations for the worked examples: under them no control point is ever close to
  a segment, so every curve is subdivided down to the cap.
\<close>

definition example_float_ops :: float_ops where
  "example_float_ops =
     \<lparr>fadd = (\<lambda>a b. a + b), fsub = (\<lambda>a b. a - b), fmul = (\<lambda>a b. a * b), fdiv = (\<lambda>a b. a),
      fneg = (\<lambda>a. - a), fgt = (\<lambda>a b. False), fne = (\<lambda>a b. a \<noteq> b)\<rparr>"

definition example_path :: Path where
  "example_path = MoveTo \<lparr>segs = [], cur = \<lparr>px = 0, py = 0\<rparr>\<rparr> 0 0"

text \<open>
  The precondition of \<open>WritePixels\<close> in the spec's words: the region has positive area and
  lies within \<open>[0,width) \<times> [0,height)\<close> of the image.
\<close>

definition region_valid :: "Image \<Rightarrow> Rectangle \<Rightarrow> bool" where
  "region_valid img region =
     (0 \<le>s X (MinP region) \<and> X (MinP region) <s X (MaxP region) \<and> X (MaxP region) \<le>s width img \<and>
      0 \<le>s Y (MinP region) \<and> Y (MinP region) <s Y (MaxP region) \<and> Y (MaxP region) \<le>s height img)"

section \<open>Facts about rectangles\<close>

lemma In_refl: "In r r"
  by (simp add: In_def)

lemma containedInAny_iff: "containedInAny regions region \<longleftrightarrow> (\<exists>r \<in> set regions. In region r)"
  by (induction regions) auto

lemma compact_invariant:
  "n \<le> i \<Longrightarrow> compact arr region i n = (arr', n') \<Longrightarrow>
   length arr' = length arr \<and>
   take n' arr' = take n arr @ filter (\<lambda>r. \<not> In r region) (drop i arr)"
proof (induction arr region i n arbitrary: arr' n' rule: compact.induct)
  case (1 arr region i n)
  show ?case
  proof (cases "i < length arr")
    case False
    with "1.prems" show ?thesis by (simp add: compact.simps [of arr region i n])
  next
    case inside: True
    show ?thesis
    proof (cases "In (arr ! i) region")
      case True
      with inside "1.prems" have run: "compact arr region (Suc i) n = (arr', n')"
        by (simp add: compact.simps [of arr region i n])
      from "1.prems"(1) have "n \<le> Suc i" by simp
      from "1.IH"(1) [OF inside refl True this run] inside True show ?thesis
        by (simp add: Cons_nth_drop_Suc [symmetric])
    next
      case False
      with inside "1.prems" have run: "compact (arr[n := arr ! i]) region (Suc i) (Suc n) = (arr', n')"
        by (simp add: compact.simps [of arr region i n])
      from "1.prems"(1) have le: "Suc n \<le> Suc i" by simp
      from "1.prems"(1) inside have n_in: "n < length arr" by simp
      have tk: "take (Suc n) (arr[n := arr ! i]) = take n arr @ [arr ! i]"
        using n_in by (simp add: take_Suc_conv_app_nth)
      have dr: "drop (Suc i) (arr[n := arr ! i]) = drop (Suc i) arr"
        using "1.prems"(1) by simp
      from "1.IH"(2) [OF inside refl False le run] tk dr inside False show ?thesis
        by (simp add: Cons_nth_drop_Suc [symmetric])
    qed
  qed
qed

lemma appendRegionRemovingDuplicates_eq:
  "appendRegionRemovingDuplicates regions region =
     (if containedInAny regions region then regions
      else filter (\<lambda>r. \<not> In r region) regions @ [region])"
proof (cases "compact regions region 0 0")
  case (Pair arr n)
  from compact_invariant [OF le_refl Pair] Pair show ?thesis
    by (simp add: appendRegionRemovingDuplicates_def)
qed

lemmas rect_eval = In_def Empty_def Rect_def Pt_def Dx_def Dy_def word_sle_eq word_sless_alt

section \<open>C4: duplicate elimination on insert\<close>

text \<open>
  C4 as stated: for every region list, after inserting \<open>r1\<close> and then an \<open>r2\<close> that
  fully contains \<open>r1\<close>, the collection contains \<open>r2\<close> and no longer \<open>r1\<close>. It fails when a
  region already in the list contains \<open>r2\<close>: both insertions then do nothing.
\<close>

theorem appendRegionRemovingDuplicates_dedup_counterexample:
  "In (Rect 1 1 2 2) (Rect 0 0 5 5) \<and>
   appendRegionRemovingDuplicates
     (appendRegionRemovingDuplicates [Rect 0 0 10 10] (Rect 1 1 2 2)) (Rect 0 0 5 5)
     = [Rect 0 0 10 10] \<and>
   Rect 0 0 5 5 \<notin> set [Rect 0 0 10 10]"
  by (simp add: appendRegionRemovingDuplicates_def rect_eval)

text \<open>
  C4, amended: after inserting \<open>r1\<close> and then an \<open>r2\<close> that fully contains \<open>r1\<close> and is not
  itself fully contained in a region the collection holds at that moment, the collection
  ends with \<open>r2\<close> and no longer contains \<open>r1\<close>; and inserting an \<open>r2\<close> that is fully
  contained in a region \<open>r1\<close> of the collection leaves the collection unchanged.
\<close>

theorem appendRegionRemovingDuplicates_dedup:
  "(In r1 r2 \<and> \<not> containedInAny (appendRegionRemovingDuplicates regions r1) r2 \<longrightarrow>
      (\<exists>kept. appendRegionRemovingDuplicates (appendRegionRemovingDuplicates regions r1) r2
                 = kept @ [r2] \<and> r1 \<notin> set (kept @ [r2]))) \<and>
   (r1 \<in> set regions \<and> In r2 r1 \<longrightarrow> appendRegionRemovingDuplicates regions r2 = regions)"
proof (intro conjI impI)
  assume a: "In r1 r2 \<and> \<not> containedInAny (appendRegionRemovingDuplicates regions r1) r2"
  let ?L = "appendRegionRemovingDuplicates regions r1"
  have res: "appendRegionRemovingDuplicates ?L r2 = filter (\<lambda>r. \<not> In r r2) ?L @ [r2]"
    using a by (simp add: appendRegionRemovingDuplicates_eq)
  have "r1 \<noteq> r2"
  proof
    assume eq: "r1 = r2"
    show False
    proof (cases "containedInAny regions r1")
      case True
      then have "?L = regions" by (simp add: appendRegionRemovingDuplicates_eq)
      with True a eq show False by simp
    next
      case False
      then have "r1 \<in> set ?L" by (simp add: appendRegionRemovingDuplicates_eq)
      with a eq In_refl show False by (auto simp: containedInAny_iff)
    qed
  qed
  with a res
  show "\<exists>kept. appendRegionRemovingDuplicates ?L r2 = kept @ [r2] \<and> r1 \<notin> set (kept @ [r2])"
    by auto
next
  assume "r1 \<in> set regions \<and> In r2 r1"
  then have "containedInAny regions r2" by (auto simp: containedInAny_iff)
  then show "appendRegionRemovingDuplicates regions r2 = regions"
    by (simp add: appendRegionRemovingDuplicates_eq)
qed

theorem appendRegionRemovingDuplicates_dedup_witness:
  "In (Rect 1 1 2 2) (Rect 0 0 5 5) \<and>
   \<not> containedInAny (appendRegionRemovingDuplicates [Rect 7 7 9 9] (Rect 1 1 2 2)) (Rect 0 0 5 5) \<and>
   (\<exists>kept. appendRegionRemovingDuplicates
              (appendRegionRemovingDuplicates [Rect 7 7 9 9] (Rect 1 1 2 2)) (Rect 0 0 5 5)
              = kept @ [Rect 0 0 5 5] \<and> Rect 1 1 2 2 \<notin> set (kept @ [Rect 0 0 5 5])) \<and>
   Rect 0 0 5 5 \<in> set [Rect 7 7 9 9, Rect 0 0 5 5] \<and> In (Rect 1 1 2 2) (Rect 0 0 5 5) \<and>
   appendRegionRemovingDuplicates [Rect 7 7 9 9, Rect 0 0 5 5] (Rect 1 1 2 2)
     = [Rect 7 7 9 9, Rect 0 0 5 5]"
proof -
  have h1: "In (Rect 1 1 2 2) (Rect 0 0 5 5)"
    by (simp add: rect_eval)
  have h2: "\<not> containedInAny (appendRegionRemovingDuplicates [Rect 7 7 9 9] (Rect 1 1 2 2)) (Rect 0 0 5 5)"
    by (simp add: appendRegionRemovingDuplicates_def compact.simps Let_def rect_eval)
  have h3: "Rect 0 0 5 5 \<in> set [Rect 7 7 9 9, Rect 0 0 5 5]"
    by simp
  from appendRegionRemovingDuplicates_dedup
         [where ?r1.0 = "Rect 1 1 2 2" and ?r2.0 = "Rect 0 0 5 5" and regions = "[Rect 7 7 9 9]"]
       appendRegionRemovingDuplicates_dedup
         [where ?r1.0 = "Rect 0 0 5 5" and ?r2.0 = "Rect 1 1 2 2"
            and regions = "[Rect 7 7 9 9, Rect 0 0 5 5]"]
       h1 h2 h3
  show ?thesis by blast
qed

section \<open>C9: insertion order\<close>

text \<open>
  C9: \<open>appendRegionRemovingDuplicates\<close> preserves insertion order. The regions that
  survive are those not fully contained in the new region, in their original order (a
  subsequence of the list), and a new region that no region of the list contains is
  appended at the end; otherwise the list is returned as it was.
\<close>

theorem appendRegionRemovingDuplicates_order:
  "\<exists>kept. kept = filter (\<lambda>r. \<not> In r region) regions \<and> subseq kept regions \<and>
     appendRegionRemovingDuplicates regions region =
       (if \<exists>r \<in> set regions. In region r then regions else kept @ [region])"
  by (simp add: appendRegionRemovingDuplicates_eq containedInAny_iff)

theorem appendRegionRemovingDuplicates_order_witness:
  "appendRegionRemovingDuplicates [Rect 7 7 9 9, Rect 0 0 2 2, Rect 5 5 6 6, Rect 1 1 3 3] (Rect 0 0 3 3)
     = [Rect 7 7 9 9, Rect 5 5 6 6, Rect 0 0 3 3]"
  using appendRegionRemovingDuplicates_order
          [where region = "Rect 0 0 3 3"
             and regions = "[Rect 7 7 9 9, Rect 0 0 2 2, Rect 5 5 6 6, Rect 1 1 3 3]"]
  by (simp add: rect_eval)

section \<open>Facts about the registry\<close>

lemmas world_eval = NewImage_def gc_NewImage_def gc_InternalSize_def clearImage_def gc_call_def
  quadVertices_def noRegions_def images_add_def deref_def store_def makeStale_def setLastTarget_def
  images_makeStaleIfDependingOn_def Image_makeStaleIfDependingOn_def dependsOn_def
  images_remove_def WritePixels_def DrawTriangles_def Dispose_def Extend_def restore_def
  example_graphics_def example_world_def Let_def

text \<open>No image depends on another one: the scan over the registry changes no image.\<close>

lemma Image_makeStaleIfDependingOn_same: "Image_makeStaleIfDependingOn img target = img"
  by (simp add: Image_makeStaleIfDependingOn_def dependsOn_def)

lemma deref_Inr: "deref w a = Inr img \<longleftrightarrow> a < length (heap w) \<and> img = heap w ! a"
  by (auto simp: deref_def)

lemma store_same: "store w a (heap w ! a) = w"
  by (simp add: store_def)

lemma makeStaleLoop_Inr: "makeStaleLoop as target w = Inr w' \<Longrightarrow> w' = w"
  by (induction as)
     (auto simp: Image_makeStaleIfDependingOn_same deref_Inr store_same split: sum.splits)

lemma makeStaleLoop_valid:
  "list_all (\<lambda>a. a < length (heap w)) as \<Longrightarrow> makeStaleLoop as target w = Inr w"
  by (induction as) (auto simp: Image_makeStaleIfDependingOn_same deref_def store_same)

lemma setLastTarget_simps [simp]:
  "heap (setLastTarget w t) = heap w"
  "commands (setLastTarget w t) = commands w"
  "graphicsDriverInitialized (setLastTarget w t) = graphicsDriverInitialized w"
  "images (theImages (setLastTarget w t)) = images (theImages w)"
  "shaders (theImages (setLastTarget w t)) = shaders (theImages w)"
  "lastTarget (theImages (setLastTarget w t)) = Some t"
  by (simp_all add: setLastTarget_def)

lemma setLastTarget_same: "lastTarget (theImages w) = Some t \<Longrightarrow> setLastTarget w t = w"
  by (simp add: setLastTarget_def)

lemma images_makeStaleIfDependingOn_Inr:
  "images_makeStaleIfDependingOn w (Some t) = Inr w1 \<Longrightarrow> w1 = setLastTarget w t"
  by (auto simp: images_makeStaleIfDependingOn_def setLastTarget_same split: if_splits
           dest!: makeStaleLoop_Inr)

lemma images_makeStaleIfDependingOn_valid:
  "registered_valid w \<Longrightarrow> images_makeStaleIfDependingOn w (Some t) = Inr (setLastTarget w t)"
  by (auto simp: images_makeStaleIfDependingOn_def registered_valid_def makeStaleLoop_valid
                 setLastTarget_same)

lemma example_world1_deref: "deref example_world1 0 = Inr example_regular"
  by (simp add: example_world1_def example_regular_def world_eval rect_eval)

lemma example_world1_valid: "registered_valid example_world1"
  by (simp add: registered_valid_def example_world1_def world_eval rect_eval)

lemma example_world2_deref: "deref example_world2 0 = Inr (example_regular\<lparr>stale := True\<rparr>)"
  by (simp add: example_world2_def ClearPixels_def example_world1_def example_regular_def
        world_eval rect_eval)

section \<open>C1: what WritePixels records\<close>

text \<open>
  C1 as stated: WritePixels on a Regular image appends the pixel buffer (or the clear)
  into the image's \<open>basePixels\<close>. On a fresh 4x4 Regular image, writing one red pixel at
  \<open>(0,0)-(1,1)\<close> leaves \<open>basePixels\<close> without any record, where \<open>AddOrReplace\<close> would
  have made one.
\<close>

theorem WritePixels_records_counterexample:
  "\<exists>w1 w2. NewImage example_graphics example_world 4 4 ImageTypeRegular = Inr (0, w1) \<and>
     WritePixels example_graphics w1 0 (Some [255, 0, 0, 255]) (Rect 0 0 1 1) = Inr w2 \<and>
     basePixels (heap w2 ! 0) = \<lparr>pixelsRecords = None\<rparr> \<and>
     Pixels_AppendRegion (basePixels (heap w2 ! 0)) [] = [] \<and>
     Pixels_AppendRegion
       (Pixels_AddOrReplace (basePixels (heap w1 ! 0)) [255, 0, 0, 255] (Rect 0 0 1 1)) []
       = [Rect 0 0 1 1]"
  by (simp add: world_eval rect_eval Pixels_AppendRegion_def Pixels_AddOrReplace_def
        pixelsRecords_addOrReplace_def pixelsRecords_appendRegions_def)

text \<open>
  C1, amended: a call \<open>WritePixels(pixelBuffer, region)\<close> on a live Regular image with a
  valid region returns, forwards the pixel buffer (or, for nil, a clear of the region) to
  the image's command image as one call, and sets the image's stale flag; every other
  field of the image, its \<open>basePixels\<close> among them, is as before the call.
\<close>

theorem WritePixels_records:
  assumes "deref w i = Inr img" and "imageType img = ImageTypeRegular" and "gimage img = Some gi"
    and "registered_valid w"
    and "0 <s Dx region" and "0 <s Dy region"
    and "In region (Rect 0 0 (width img) (height img))"
  shows "\<exists>w'. WritePixels g w i pixels region = Inr w' \<and>
           deref w' i = Inr (img\<lparr>stale := True\<rparr>) \<and>
           basePixels (heap w' ! i) = basePixels img \<and>
           (\<exists>c. commands w' = commands w @ [c] \<and>
              (case pixels of
                 Some pix \<Rightarrow> c = GcWritePixels gi pix region
               | None \<Rightarrow> (\<exists>vs is srcs rs sh us.
                    c = GcDrawTriangles gi srcs vs is BlendClear region rs sh us FillRuleFillAll)))"
proof -
  from assms(1) have v: "i < length (heap w)" and eq: "heap w ! i = img"
    by (simp_all add: deref_Inr)
  from assms(5,6) have pos: "\<not> Dx region \<le>s 0" "\<not> Dy region \<le>s 0"
    by (simp_all add: signed.not_le)
  from assms(2,3,4,7) v eq pos show ?thesis
    by (cases pixels)
       (simp_all add: WritePixels_def images_makeStaleIfDependingOn_valid deref_def clearImage_def
          gc_call_def store_def makeStale_def Let_def)
qed

theorem WritePixels_records_witness:
  "\<exists>w'. WritePixels example_graphics example_world1 0 None (Rect 0 0 2 2) = Inr w' \<and>
     deref w' 0 = Inr (example_regular\<lparr>stale := True\<rparr>) \<and>
     basePixels (heap w' ! 0) = \<lparr>pixelsRecords = None\<rparr>"
proof -
  note h1 = example_world1_deref and h4 = example_world1_valid
  have h2: "imageType example_regular = ImageTypeRegular"
    and h3: "gimage example_regular = Some \<lparr>gc_id = 0, gc_width = 4, gc_height = 4, gc_screen = False\<rparr>"
    by (simp_all add: example_regular_def)
  have h5: "0 <s Dx (Rect 0 0 2 2)" and h6: "0 <s Dy (Rect 0 0 2 2)"
    by (simp_all add: rect_eval)
  have h7: "In (Rect 0 0 2 2) (Rect 0 0 (width example_regular) (height example_regular))"
    by (simp add: example_regular_def rect_eval)
  from WritePixels_records [OF h1 h2 h3 h4 h5 h6 h7, of example_graphics None]
  show ?thesis by (auto simp: example_regular_def)
qed

section \<open>C3: the stale regions after WritePixels\<close>

text \<open>
  C3: after \<open>WritePixels(pixelBuffer, region)\<close> the image's \<open>staleRegions\<close> include
  \<open>region\<close>. The code calls \<open>makeStale(region)\<close> "to extend the stale region", but
  \<open>makeStale\<close> only sets the flag: on the fresh 4x4 image, after writing the region
  \<open>(0,0)-(1,1)\<close> the list of stale regions is still empty.
\<close>

theorem WritePixels_staleRegions_not_extended:
  "\<exists>w'. WritePixels example_graphics example_world1 0 (Some [255, 0, 0, 255]) (Rect 0 0 1 1) = Inr w' \<and>
     stale (heap w' ! 0) \<and> staleRegions (heap w' ! 0) = [] \<and>
     Rect 0 0 1 1 \<notin> set (staleRegions (heap w' ! 0))"
  by (simp add: example_world1_def world_eval rect_eval)

section \<open>C2 and C5: restore\<close>

text \<open>
  C2 as stated: after \<open>restore\<close> returns, the stale flag is false for every image type.
  A Volatile image that was written to is stale, and \<open>restore\<close> returns from its Volatile
  branch without touching the flag.
\<close>

theorem restore_stale_counterexample:
  "\<exists>w1 w2 w3. NewImage example_graphics example_world 4 4 ImageTypeVolatile = Inr (0, w1) \<and>
     WritePixels example_graphics w1 0 None (Rect 0 0 2 2) = Inr w2 \<and>
     restore example_graphics w2 0 = Inr (None, w3) \<and>
     imageType (heap w3 ! 0) = ImageTypeVolatile \<and> stale (heap w3 ! 0)"
  by (simp add: world_eval rect_eval)

text \<open>
  C2, amended: for every image on which \<open>restore\<close> does not panic (a Screen or Volatile
  image in any state, a Regular image that is not stale), \<open>restore\<close> returns a nil error,
  and afterwards the stale flag of a Regular or Screen image is false, while the stale
  flag of a Volatile image is what it was before.
\<close>

theorem restore_stale:
  assumes "deref w i = Inr img" and "imageType img = ImageTypeRegular \<longrightarrow> \<not> stale img"
  shows "\<exists>w'. restore g w i = Inr (None, w') \<and>
           stale (heap w' ! i) = (imageType img = ImageTypeVolatile \<and> stale img)"
proof -
  from assms(1) have v: "i < length (heap w)" and eq: "heap w ! i = img"
    by (simp_all add: deref_Inr)
  from assms v eq show ?thesis
    by (cases "imageType img")
       (simp_all add: restore_def gc_NewImage_def gc_InternalSize_def clearImage_def gc_call_def
          Let_def store_def)
qed

theorem restore_stale_witness:
  "\<exists>w'. restore example_graphics example_world1 0 = Inr (None, w') \<and> \<not> stale (heap w' ! 0)"
proof -
  have h: "imageType example_regular = ImageTypeRegular \<longrightarrow> \<not> stale example_regular"
    by (simp add: example_regular_def)
  from restore_stale [OF example_world1_deref h, of example_graphics]
  show ?thesis by (simp add: example_regular_def)
qed

text \<open>
  C5: \<open>restore\<close> on a Regular image whose stale flag is true panics with "pixels must not
  be stale when restoring"; on a Regular image that is not stale it returns; on a Screen
  or Volatile image it returns whatever the stale flag is.
\<close>

theorem restore_panics:
  "deref w i = Inr img \<Longrightarrow>
   (imageType img = ImageTypeRegular \<and> stale img \<longrightarrow> restore g w i = Inl PixelsMustNotBeStale) \<and>
   (imageType img = ImageTypeRegular \<and> \<not> stale img \<longrightarrow> (\<exists>w'. restore g w i = Inr (None, w'))) \<and>
   (imageType img \<noteq> ImageTypeRegular \<longrightarrow> (\<exists>w'. restore g w i = Inr (None, w')))"
  by (cases "imageType img")
     (simp_all add: restore_def gc_NewImage_def gc_InternalSize_def clearImage_def gc_call_def Let_def)

theorem restore_panics_witness:
  "restore example_graphics example_world2 0 = Inl PixelsMustNotBeStale \<and>
   (\<exists>w'. restore example_graphics example_world1 0 = Inr (None, w'))"
  using restore_panics [OF example_world2_deref, of example_graphics]
        restore_panics [OF example_world1_deref, of example_graphics]
  by (simp add: example_regular_def)

section \<open>C7: DrawTriangles without vertices\<close>

text \<open>
  C7: \<open>DrawTriangles\<close> with an empty vertex list returns the world it was given: no
  image changes (stale flags and stale regions included), the registry keeps its
  \<open>lastTarget\<close> (no invalidation scan ran), and the command layer receives no call.
\<close>

theorem DrawTriangles_no_vertices:
  "DrawTriangles w i srcs [] indices blend dstRegion srcRegions shdr uniforms fillRule = Inr w"
  by (simp add: DrawTriangles_def)

theorem DrawTriangles_no_vertices_witness:
  "DrawTriangles example_world1 0 [Some 0] [] [0, 1, 2] BlendCopy (Rect 0 0 4 4) [] None []
     FillRuleFillAll = Inr example_world1"
  using DrawTriangles_no_vertices [of example_world1 0 "[Some 0]" "[0, 1, 2]" BlendCopy
          "Rect 0 0 4 4" "[]" None "[]" FillRuleFillAll]
  by simp

section \<open>C6: the region check of WritePixels\<close>

lemma sint_sub_no_overflow:
  fixes a b :: go_int
  assumes "0 \<le> sint a" and "sint a \<le> sint b"
  shows "sint (b - a) = sint b - sint a"
proof -
  have "sint b < 2 ^ 63" using sint_lt [of b] by simp
  moreover have "- (2 ^ 63) \<le> sint a" using sint_ge [of a] by simp
  ultimately have "- (2 ^ 63) \<le> sint b - sint a" "sint b - sint a < 2 ^ 63"
    using assms by linarith+
  then show ?thesis
    by (simp add: sint_word_ariths signed_take_bit_int_eq_self)
qed

lemma Rect_nonneg:
  "0 \<le>s wd \<Longrightarrow> 0 \<le>s ht \<Longrightarrow> Rect 0 0 wd ht = \<lparr>MinP = Pt 0 0, MaxP = Pt wd ht\<rparr>"
  by (auto simp: Rect_def word_sle_eq word_sless_alt)

lemma WritePixels_returns:
  assumes "deref w i = Inr img" and "gimage img = Some gi" and "registered_valid w"
    and "\<not> Dx region \<le>s 0" and "\<not> Dy region \<le>s 0"
    and "In region (Rect 0 0 (width img) (height img))"
  shows "\<exists>w'. WritePixels g w i pixels region = Inr w'"
proof -
  from assms(1) have v: "i < length (heap w)" and eq: "heap w ! i = img"
    by (simp_all add: deref_Inr)
  from assms(2-) v eq show ?thesis
    by (cases pixels)
       (simp_all add: WritePixels_def images_makeStaleIfDependingOn_valid deref_def clearImage_def
          gc_call_def store_def makeStale_def Let_def)
qed

lemma region_valid_checks:
  assumes "region_valid img region"
  shows "\<not> Dx region \<le>s 0" and "\<not> Dy region \<le>s 0"
    and "In region (Rect 0 0 (width img) (height img))"
proof -
  from assms have x: "0 \<le> sint (X (MinP region))" "sint (X (MinP region)) < sint (X (MaxP region))"
      "sint (X (MaxP region)) \<le> sint (width img)"
    and y: "0 \<le> sint (Y (MinP region))" "sint (Y (MinP region)) < sint (Y (MaxP region))"
      "sint (Y (MaxP region)) \<le> sint (height img)"
    by (simp_all add: region_valid_def word_sle_eq word_sless_alt)
  from x show "\<not> Dx region \<le>s 0"
    by (simp add: Dx_def word_sle_eq sint_sub_no_overflow)
  from y show "\<not> Dy region \<le>s 0"
    by (simp add: Dy_def word_sle_eq sint_sub_no_overflow)
  from x y have "0 \<le>s width img" "0 \<le>s height img"
    by (simp_all add: word_sle_eq)
  then have "Rect 0 0 (width img) (height img) = \<lparr>MinP = Pt 0 0, MaxP = Pt (width img) (height img)\<rparr>"
    by (rule Rect_nonneg)
  with x y show "In region (Rect 0 0 (width img) (height img))"
    by (simp add: In_def Empty_def Pt_def word_sle_eq)
qed

text \<open>
  C6: WritePixels panics exactly when the region has no positive area or does not lie
  within the image. The rectangle from \<open>(MaxInt64, 0)\<close> to \<open>(MinInt64, 1)\<close> is empty by
  \<open>Empty\<close> and starts far outside a 4x4 image, but its \<open>Dx\<close> wraps around to 1: the
  check \<open>Dx() <= 0\<close> lets it through, \<open>In\<close> holds of every empty rectangle, and
  WritePixels returns without a panic.
\<close>

theorem WritePixels_overflow_passes_check:
  "Empty \<lparr>MinP = Pt 9223372036854775807 0, MaxP = Pt (- 9223372036854775808) 1\<rparr> \<and>
   \<not> region_valid example_regular
        \<lparr>MinP = Pt 9223372036854775807 0, MaxP = Pt (- 9223372036854775808) 1\<rparr> \<and>
   Dx \<lparr>MinP = Pt 9223372036854775807 0, MaxP = Pt (- 9223372036854775808) 1\<rparr> = 1 \<and>
   Dy \<lparr>MinP = Pt 9223372036854775807 0, MaxP = Pt (- 9223372036854775808) 1\<rparr> = 1 \<and>
   (\<exists>w'. WritePixels example_graphics example_world1 0 (Some [255, 0, 0, 255])
            \<lparr>MinP = Pt 9223372036854775807 0, MaxP = Pt (- 9223372036854775808) 1\<rparr> = Inr w')"
  by (simp add: example_world1_def example_regular_def region_valid_def world_eval rect_eval)

text \<open>
  What the check does achieve: on a live image of non-negative size, for every rectangle
  whose corners are in order (\<open>Min.X \<le> Max.X\<close> and \<open>Min.Y \<le> Max.Y\<close>), WritePixels
  returns when the region has positive area and lies within the image, and panics with
  one of its two messages otherwise.
\<close>

theorem WritePixels_panics_iff:
  assumes "deref w i = Inr img" and "gimage img = Some gi" and "registered_valid w"
    and "0 \<le>s width img" and "0 \<le>s height img"
    and "X (MinP region) \<le>s X (MaxP region)" and "Y (MinP region) \<le>s Y (MaxP region)"
  shows "(if region_valid img region then \<exists>w'. WritePixels g w i pixels region = Inr w'
          else WritePixels g w i pixels region = Inl WidthHeightMustBePositive \<or>
               WritePixels g w i pixels region = Inl (OutOfRange region))"
proof (cases "region_valid img region")
  case True
  with WritePixels_returns [OF assms(1-3) region_valid_checks [OF True]] show ?thesis by simp
next
  case False
  from assms(1) have v: "i < length (heap w)" and eq: "heap w ! i = img"
    by (simp_all add: deref_Inr)
  have "WritePixels g w i pixels region = Inl WidthHeightMustBePositive \<or>
        WritePixels g w i pixels region = Inl (OutOfRange region)"
  proof (cases "Dx region \<le>s 0 \<or> Dy region \<le>s 0")
    case True
    then show ?thesis by (auto simp: WritePixels_def)
  next
    case pos: False
    from pos assms(6) have "X (MinP region) \<noteq> X (MaxP region)" by (auto simp: Dx_def)
    with assms(6) have lx: "sint (X (MinP region)) < sint (X (MaxP region))"
      by (auto simp: word_sle_eq order_less_le dest: signed_word_eqI)
    from pos assms(7) have "Y (MinP region) \<noteq> Y (MaxP region)" by (auto simp: Dy_def)
    with assms(7) have ly: "sint (Y (MinP region)) < sint (Y (MaxP region))"
      by (auto simp: word_sle_eq order_less_le dest: signed_word_eqI)
    have r: "Rect 0 0 (width img) (height img) = \<lparr>MinP = Pt 0 0, MaxP = Pt (width img) (height img)\<rparr>"
      using assms(4,5) by (rule Rect_nonneg)
    from False lx ly have "\<not> In region (Rect 0 0 (width img) (height img))"
      by (auto simp: r In_def Empty_def Pt_def region_valid_def word_sle_eq word_sless_alt)
    with pos v eq show ?thesis by (simp add: WritePixels_def deref_def)
  qed
  with False show ?thesis by simp
qed

theorem WritePixels_panics_iff_witness:
  "(\<exists>w'. WritePixels example_graphics example_world1 0 None (Rect 1 1 4 4) = Inr w') \<and>
   (WritePixels example_graphics example_world1 0 None (Rect 1 1 5 4) = Inl WidthHeightMustBePositive \<or>
    WritePixels example_graphics example_world1 0 None (Rect 1 1 5 4) = Inl (OutOfRange (Rect 1 1 5 4)))"
proof -
  have g: "gimage example_regular = Some \<lparr>gc_id = 0, gc_width = 4, gc_height = 4, gc_screen = False\<rparr>"
    and d: "0 \<le>s width example_regular" "0 \<le>s height example_regular"
    by (simp_all add: example_regular_def word_sle_eq)
  have a: "X (MinP (Rect 1 1 4 4)) \<le>s X (MaxP (Rect 1 1 4 4))"
          "Y (MinP (Rect 1 1 4 4)) \<le>s Y (MaxP (Rect 1 1 4 4))"
    and b: "X (MinP (Rect 1 1 5 4)) \<le>s X (MaxP (Rect 1 1 5 4))"
           "Y (MinP (Rect 1 1 5 4)) \<le>s Y (MaxP (Rect 1 1 5 4))"
    by (simp_all add: rect_eval)
  have va: "region_valid example_regular (Rect 1 1 4 4)"
    and vb: "\<not> region_valid example_regular (Rect 1 1 5 4)"
    by (simp_all add: region_valid_def example_regular_def rect_eval)
  from WritePixels_panics_iff [OF example_world1_deref g example_world1_valid d a,
         of example_graphics None]
       WritePixels_panics_iff [OF example_world1_deref g example_world1_valid d b,
         of example_graphics None]
       va vb
  show ?thesis by simp
qed

section \<open>C8: Extend\<close>

lemma sourceImages_nil: "sourceImages w (replicate n None) = Inr (replicate n None)"
  by (induction n) simp_all

lemma registered_valid_iff:
  "registered_valid w \<longleftrightarrow> (\<forall>a \<in> set (images (theImages w)). a < length (heap w))"
  by (simp add: registered_valid_def list_all_iff)

lemma quadVertices_nonempty: "0 < VertexFloatCount g \<Longrightarrow> quadVertices g args \<noteq> []"
  by (simp add: quadVertices_def)

text \<open>
  C8: when the image's width and height cover the requested size, \<open>Extend\<close> returns the
  image's own address and the world as it was. Otherwise (with the driver initialized, a
  live image and a vertex format that is not empty) it returns a new address, and the
  command layer has received exactly four more calls: the creation of the new image, its
  clear, one draw with the old image as the first source, and the disposal of the old
  image, which is then unregistered and without a command image.
\<close>

theorem Extend_effect:
  assumes "deref w i = Inr img"
  shows "(wd \<le>s width img \<and> ht \<le>s height img \<longrightarrow> Extend g w i wd ht = Inr (i, w)) \<and>
         (\<not> (wd \<le>s width img \<and> ht \<le>s height img) \<and> graphicsDriverInitialized w \<and>
          registered_valid w \<and> gimage img = Some gi \<and> 0 < VertexFloatCount g \<longrightarrow>
            (\<exists>w' new clear copy.
               Extend g w i wd ht = Inr (length (heap w), w') \<and> length (heap w) \<noteq> i \<and>
               new = \<lparr>gc_id = length (commands w), gc_width = wd, gc_height = ht,
                       gc_screen = (imageType img = ImageTypeScreen)\<rparr> \<and>
               commands w' = commands w @ [GcNewImage new, clear, copy, GcDispose gi] \<and>
               (\<exists>vs is rs sh us.
                  clear = GcDrawTriangles new (replicate (ShaderSrcImageCount g) None) vs is BlendClear
                    (Rect 0 0 (InternalImageSize g wd) (InternalImageSize g ht)) rs sh us
                    FillRuleFillAll) \<and>
               (\<exists>vs is rs sh us.
                  copy = GcDrawTriangles new (Some gi # replicate (ShaderSrcImageCount g - 1) None)
                    vs is BlendCopy
                    (Rect 0 0 (InternalImageSize g (gc_width gi)) (InternalImageSize g (gc_height gi)))
                    rs sh us FillRuleFillAll) \<and>
               gimage (heap w' ! i) = None \<and>
               gimage (heap w' ! length (heap w)) = Some new \<and>
               stale (heap w' ! length (heap w)) \<and>
               i \<notin> set (images (theImages w')) \<and>
               length (heap w) \<in> set (images (theImages w'))))"
proof (intro conjI impI)
  from assms have v: "i < length (heap w)" and eq: "heap w ! i = img"
    by (simp_all add: deref_Inr)
  {
    assume "wd \<le>s width img \<and> ht \<le>s height img"
    with v eq show "Extend g w i wd ht = Inr (i, w)"
      by (simp add: Extend_def deref_def)
  next
    assume a: "\<not> (wd \<le>s width img \<and> ht \<le>s height img) \<and> graphicsDriverInitialized w \<and>
          registered_valid w \<and> gimage img = Some gi \<and> 0 < VertexFloatCount g"
    then have val: "\<forall>a \<in> set (images (theImages w)). a < length (heap w)"
      by (simp add: registered_valid_iff)
    have ne: "length (heap w) \<noteq> i" using v by simp
    from a have nc: "(wd \<le>s width img \<and> ht \<le>s height img) = False" by simp
    from a have a': "graphicsDriverInitialized w" "gimage img = Some gi" by simp_all
    from a have ne0: "quadVertices g args \<noteq> []" for args
      by (simp add: quadVertices_nonempty)
    show "\<exists>w' new clear copy.
               Extend g w i wd ht = Inr (length (heap w), w') \<and> length (heap w) \<noteq> i \<and>
               new = \<lparr>gc_id = length (commands w), gc_width = wd, gc_height = ht,
                       gc_screen = (imageType img = ImageTypeScreen)\<rparr> \<and>
               commands w' = commands w @ [GcNewImage new, clear, copy, GcDispose gi] \<and>
               (\<exists>vs is rs sh us.
                  clear = GcDrawTriangles new (replicate (ShaderSrcImageCount g) None) vs is BlendClear
                    (Rect 0 0 (InternalImageSize g wd) (InternalImageSize g ht)) rs sh us
                    FillRuleFillAll) \<and>
               (\<exists>vs is rs sh us.
                  copy = GcDrawTriangles new (Some gi # replicate (ShaderSrcImageCount g - 1) None)
                    vs is BlendCopy
                    (Rect 0 0 (InternalImageSize g (gc_width gi)) (InternalImageSize g (gc_height gi)))
                    rs sh us FillRuleFillAll) \<and>
               gimage (heap w' ! i) = None \<and>
               gimage (heap w' ! length (heap w)) = Some new \<and>
               stale (heap w' ! length (heap w)) \<and>
               i \<notin> set (images (theImages w')) \<and>
               length (heap w) \<in> set (images (theImages w'))"
      using v eq ne val ne0 a'
      by (simp add: nc Extend_def NewImage_def deref_def gc_NewImage_def gc_InternalSize_def
           clearImage_def gc_call_def images_add_def DrawTriangles_def Dispose_def images_remove_def
           images_makeStaleIfDependingOn_valid registered_valid_iff store_def makeStale_def
           sourceImages_nil nth_append Let_def less_Suc_eq)
  }
qed

theorem Extend_effect_witness:
  "Extend example_graphics example_world1 0 4 3 = Inr (0, example_world1) \<and>
   (\<exists>w'. Extend example_graphics example_world1 0 8 8 = Inr (1, w') \<and>
      length (commands w') = length (commands example_world1) + 4 \<and>
      gimage (heap w' ! 0) = None \<and>
      0 \<notin> set (images (theImages w')) \<and> 1 \<in> set (images (theImages w')))"
proof -
  have c: "(4 :: go_int) \<le>s width example_regular \<and> (3 :: go_int) \<le>s height example_regular"
    and n: "\<not> ((8 :: go_int) \<le>s width example_regular \<and> (8 :: go_int) \<le>s height example_regular)"
    and g: "gimage example_regular = Some \<lparr>gc_id = 0, gc_width = 4, gc_height = 4, gc_screen = False\<rparr>"
    by (simp_all add: example_regular_def word_sle_eq)
  have i: "graphicsDriverInitialized example_world1" and l: "length (heap example_world1) = 1"
    by (simp_all add: example_world1_def world_eval rect_eval)
  have f: "0 < VertexFloatCount example_graphics"
    by (simp add: example_graphics_def)
  from Extend_effect [OF example_world1_deref, of 4 3 example_graphics]
  have first: "Extend example_graphics example_world1 0 4 3 = Inr (0, example_world1)"
    using c by blast
  from Extend_effect [OF example_world1_deref, of 8 8 example_graphics
         "\<lparr>gc_id = 0, gc_width = 4, gc_height = 4, gc_screen = False\<rparr>"]
       n g i l f example_world1_valid
  have "\<exists>w'. Extend example_graphics example_world1 0 8 8 = Inr (1, w') \<and>
      length (commands w') = length (commands example_world1) + 4 \<and>
      gimage (heap w' ! 0) = None \<and>
      0 \<notin> set (images (theImages w')) \<and> 1 \<in> set (images (theImages w'))"
    by auto
  with first show ?thesis by blast
qed

section \<open>C10: the flattening recursion returns\<close>

lemma sint_level_succ:
  fixes level :: go_int
  assumes "\<not> 10 <s level"
  shows "sint (level + 1) = sint level + 1"
proof -
  from assms have "sint level \<le> 10" by (simp add: word_sless_alt)
  moreover have "- (2 ^ 63) \<le> sint level" using sint_ge [of level] by simp
  moreover have "(11 :: int) < 2 ^ 63" by simp
  ultimately have "- (2 ^ 63) \<le> sint level + 1" "sint level + 1 < 2 ^ 63" by linarith+
  then show ?thesis
    by (simp add: sint_word_ariths signed_take_bit_int_eq_self)
qed

lemma quadTo_returns:
  "nat (11 - sint level) < depth \<Longrightarrow> \<exists>r. quadTo depth fo p x1 y1 x2 y2 level = Some r"
proof (induction depth arbitrary: p x1 y1 x2 y2 level)
  case 0
  then show ?case by simp
next
  case (Suc depth)
  show ?case
  proof (cases "10 <s level")
    case True
    then show ?thesis by simp
  next
    case False
    then have le: "sint level \<le> 10" by (simp add: word_sless_alt)
    with Suc.prems sint_level_succ [OF False]
    have m: "nat (11 - sint (level + 1)) < depth" by simp
    show ?thesis
    proof (cases "isPointCloseToSegment fo x1 y1 (px (cur p)) (py (cur p)) x2 y2 float32_half")
      case True
      with False show ?thesis by (simp add: Let_def)
    next
      case far: False
      let ?xa = "mid fo (px (cur p)) x1" and ?ya = "mid fo (py (cur p)) y1"
      let ?xb = "mid fo x1 x2" and ?yb = "mid fo y1 y2"
      from Suc.IH [OF m] obtain r1 where
        r1: "quadTo depth fo p ?xa ?ya (mid fo ?xa ?xb) (mid fo ?ya ?yb) (level + 1) = Some r1"
        by blast
      show ?thesis
      proof (cases r1)
        case (Inl e)
        with False far r1 show ?thesis by (simp add: Let_def)
      next
        case (Inr p1)
        from Suc.IH [OF m] obtain r2 where
          "quadTo depth fo p1 ?xb ?yb x2 y2 (level + 1) = Some r2" by blast
        with False far r1 Inr show ?thesis by (simp add: Let_def)
      qed
    qed
  qed
qed

lemma cubicTo_returns:
  "nat (11 - sint level) < depth \<Longrightarrow> \<exists>r. cubicTo depth fo p x1 y1 x2 y2 x3 y3 level = Some r"
proof (induction depth arbitrary: p x1 y1 x2 y2 x3 y3 level)
  case 0
  then show ?case by simp
next
  case (Suc depth)
  show ?case
  proof (cases "10 <s level")
    case True
    then show ?thesis by simp
  next
    case False
    then have le: "sint level \<le> 10" by (simp add: word_sless_alt)
    with Suc.prems sint_level_succ [OF False]
    have m: "nat (11 - sint (level + 1)) < depth" by simp
    show ?thesis
    proof (cases "isPointCloseToSegment fo x1 y1 (px (cur p)) (py (cur p)) x3 y3 float32_half \<and>
                  isPointCloseToSegment fo x2 y2 (px (cur p)) (py (cur p)) x3 y3 float32_half")
      case True
      with False show ?thesis by (simp add: Let_def)
    next
      case far: False
      let ?xa = "mid fo (px (cur p)) x1" and ?ya = "mid fo (py (cur p)) y1"
      let ?xb = "mid fo x1 x2" and ?yb = "mid fo y1 y2"
      let ?xc = "mid fo x2 x3" and ?yc = "mid fo y2 y3"
      let ?xab = "mid fo ?xa ?xb" and ?yab = "mid fo ?ya ?yb"
      let ?xbc = "mid fo ?xb ?xc" and ?ybc = "mid fo ?yb ?yc"
      from Suc.IH [OF m] obtain r1 where
        r1: "cubicTo depth fo p ?xa ?ya ?xab ?yab (mid fo ?xab ?xbc) (mid fo ?yab ?ybc)
               (level + 1) = Some r1"
        by blast
      show ?thesis
      proof (cases r1)
        case (Inl e)
        with False far r1 show ?thesis by (simp add: Let_def)
      next
        case (Inr p1)
        from Suc.IH [OF m] obtain r2 where
          "cubicTo depth fo p1 ?xbc ?ybc ?xc ?yc x3 y3 (level + 1) = Some r2" by blast
        with False far r1 Inr show ?thesis by (simp add: Let_def)
      qed
    qed
  qed
qed

text \<open>
  C10: \<open>quadTo\<close> and \<open>cubicTo\<close> return for every input, whatever the float operations
  and the closeness test compute. A call at \<open>level\<close> returns within \<open>12 - level\<close> nested
  calls (one call when \<open>level > 10\<close>, which returns at once with the path unchanged), so
  \<open>QuadTo\<close> and \<open>CubicTo\<close>, which start at level 0, never nest more than 12 calls.
\<close>

theorem flattening_terminates:
  "(nat (11 - sint level) < depth \<longrightarrow>
      (\<exists>r. quadTo depth fo p x1 y1 x2 y2 level = Some r) \<and>
      (\<exists>r. cubicTo depth fo p x1 y1 x2 y2 x3 y3 level = Some r)) \<and>
   (10 <s level \<longrightarrow>
      quadTo (Suc depth) fo p x1 y1 x2 y2 level = Some (Inr p) \<and>
      cubicTo (Suc depth) fo p x1 y1 x2 y2 x3 y3 level = Some (Inr p)) \<and>
   (\<exists>r. QuadTo 12 fo p x1 y1 x2 y2 = Some r) \<and>
   (\<exists>r. CubicTo 12 fo p x1 y1 x2 y2 x3 y3 = Some r)"
  using quadTo_returns [of level depth fo p x1 y1 x2 y2]
        cubicTo_returns [of level depth fo p x1 y1 x2 y2 x3 y3]
        quadTo_returns [of 0 12 fo p x1 y1 x2 y2]
        cubicTo_returns [of 0 12 fo p x1 y1 x2 y2 x3 y3]
  by (simp add: QuadTo_def CubicTo_def)

theorem flattening_terminates_witness:
  "nat (11 - sint (9 :: go_int)) < 3 \<and> (10 :: go_int) <s 11 \<and>
   (\<exists>r. quadTo 3 example_float_ops example_path 1 1 2 2 9 = Some r) \<and>
   (\<exists>r. cubicTo 3 example_float_ops example_path 1 1 2 2 3 3 9 = Some r) \<and>
   quadTo (Suc 0) example_float_ops example_path 1 1 2 2 11 = Some (Inr example_path) \<and>
   cubicTo (Suc 0) example_float_ops example_path 1 1 2 2 3 3 11 = Some (Inr example_path)"
proof -
  have h1: "nat (11 - sint (9 :: go_int)) < 3" by simp
  have h2: "(10 :: go_int) <s 11" by (simp add: word_sless_alt)
  from flattening_terminates [of 9 3 example_float_ops example_path 1 1 2 2 3 3]
       flattening_terminates [of 11 0 example_float_ops example_path 1 1 2 2 3 3]
       h1 h2
  show ?thesis by blast
qed

end
